theory Spec2Isabelle
  imports Complex_Main "HOL-Library.AList"
begin

section \<open>JavaScript values\<close>

text \<open>
  The program is a single React component (\<^verbatim>\<open>App\<close>) whose state is plain
  JavaScript data: strings, numbers, arrays and object literals, read back from JSON
  without any validation. The model therefore keeps the data dynamically typed.

  Numbers: \<^verbatim>\<open>NaN\<close> and the two infinities are explicit; a finite number is an exact
  rational. Rounding to double precision, overflow of a finite sum and the sign of zero
  are outside the model.

  Strings are byte strings (the UTF-8 encoding of the text). Objects are association
  lists in property-creation order. \<open>JSFun\<close> stands for a built-in function object,
  named by its path.
\<close>

datatype jsnum = NaN | PInf | NInf | Fin rat

datatype jsval =
    JSUndefined
  | JSNull
  | JSBool bool
  | JSNum jsnum
  | JSStr string
  | JSArr "jsval list"
  | JSObj "(string \<times> jsval) list"
  | JSFun string

datatype js_error = TypeError | SyntaxError

subsection \<open>Arithmetic on numbers\<close>

fun jadd :: "jsnum \<Rightarrow> jsnum \<Rightarrow> jsnum" where
  "jadd NaN _ = NaN"
| "jadd _ NaN = NaN"
| "jadd PInf NInf = NaN"
| "jadd NInf PInf = NaN"
| "jadd PInf _ = PInf"
| "jadd _ PInf = PInf"
| "jadd NInf _ = NInf"
| "jadd _ NInf = NInf"
| "jadd (Fin a) (Fin b) = Fin (a + b)"

fun jneg :: "jsnum \<Rightarrow> jsnum" where
  "jneg NaN = NaN"
| "jneg PInf = NInf"
| "jneg NInf = PInf"
| "jneg (Fin a) = Fin (- a)"

definition jsub :: "jsnum \<Rightarrow> jsnum \<Rightarrow> jsnum" where
  "jsub a b = jadd a (jneg b)"

text \<open>
  Numbers with \<open>jadd\<close> form a commutative monoid, so that the sum of a list of numbers
  (\<open>sum_list\<close>) does not depend on the order of summation.
\<close>

instantiation jsnum :: comm_monoid_add
begin

definition zero_jsnum :: jsnum where
  "zero_jsnum = Fin 0"

definition plus_jsnum :: "jsnum \<Rightarrow> jsnum \<Rightarrow> jsnum" where
  "plus_jsnum = jadd"

instance
proof
  fix a b c :: jsnum
  show "a + b + c = a + (b + c)"
    unfolding plus_jsnum_def by (cases a; cases b; cases c) simp_all
  show "a + b = b + a"
    unfolding plus_jsnum_def by (cases a; cases b) simp_all
  show "0 + a = a"
    unfolding plus_jsnum_def zero_jsnum_def by (cases a) simp_all
qed

end

subsection \<open>Truthiness\<close>

text \<open>\<^verbatim>\<open>!x\<close>, \<^verbatim>\<open>x || y\<close> and \<^verbatim>\<open>if (x)\<close> go through ToBoolean.\<close>

fun truthy :: "jsval \<Rightarrow> bool" where
  "truthy JSUndefined = False"
| "truthy JSNull = False"
| "truthy (JSBool b) = b"
| "truthy (JSNum n) = (n \<noteq> Fin 0 \<and> n \<noteq> NaN)"
| "truthy (JSStr s) = (s \<noteq> [])"
| "truthy (JSArr _) = True"
| "truthy (JSObj _) = True"
| "truthy (JSFun _) = True"

definition js_or :: "jsval \<Rightarrow> jsval \<Rightarrow> jsval" where
  "js_or a b = (if truthy a then a else b)"

subsection \<open>Number(string)\<close>

text \<open>
  \<^verbatim>\<open>Number(s)\<close> on a string is StringToNumber: white space and line terminators are
  trimmed, the empty string is 0, then the whole rest must be a decimal literal
  (optional sign, \<^verbatim>\<open>Infinity\<close>, digits with optional fraction and exponent) or an
  unsigned binary, octal or hexadecimal literal; anything else is \<^verbatim>\<open>NaN\<close>.
\<close>

fun drop_ws :: "string \<Rightarrow> string" where
  "drop_ws [] = []"
| "drop_ws (c # cs) =
     (let b = (of_char c :: nat) in
      if b = 0x09 \<or> b = 0x0A \<or> b = 0x0B \<or> b = 0x0C \<or> b = 0x0D \<or> b = 0x20 then drop_ws cs
      else case cs of
        d # r \<Rightarrow>
          (let e = (of_char d :: nat) in
           if b = 0xC2 \<and> e = 0xA0 then drop_ws r
           else case r of
             f # t \<Rightarrow>
               (let g = (of_char f :: nat) in
                if (b = 0xE1 \<and> e = 0x9A \<and> g = 0x80)
                 \<or> (b = 0xE2 \<and> e = 0x80 \<and> (0x80 \<le> g \<and> g \<le> 0x8A \<or> g = 0xA8 \<or> g = 0xA9 \<or> g = 0xAF))
                 \<or> (b = 0xE2 \<and> e = 0x81 \<and> g = 0x9F)
                 \<or> (b = 0xE3 \<and> e = 0x80 \<and> g = 0x80)
                 \<or> (b = 0xEF \<and> e = 0xBB \<and> g = 0xBF)
                then drop_ws t else c # cs)
           | [] \<Rightarrow> c # cs)
      | [] \<Rightarrow> c # cs)"

fun drop_ws_end :: "string \<Rightarrow> string" where
  "drop_ws_end [] = []"
| "drop_ws_end (c # cs) =
     (let b = (of_char c :: nat) in
      if b = 0x09 \<or> b = 0x0A \<or> b = 0x0B \<or> b = 0x0C \<or> b = 0x0D \<or> b = 0x20 then drop_ws_end cs
      else case cs of
        d # r \<Rightarrow>
          (let e = (of_char d :: nat) in
           if b = 0xA0 \<and> e = 0xC2 then drop_ws_end r
           else case r of
             f # t \<Rightarrow>
               (let g = (of_char f :: nat) in
                if (g = 0xE1 \<and> e = 0x9A \<and> b = 0x80)
                 \<or> (g = 0xE2 \<and> e = 0x80 \<and> (0x80 \<le> b \<and> b \<le> 0x8A \<or> b = 0xA8 \<or> b = 0xA9 \<or> b = 0xAF))
                 \<or> (g = 0xE2 \<and> e = 0x81 \<and> b = 0x9F)
                 \<or> (g = 0xE3 \<and> e = 0x80 \<and> b = 0x80)
                 \<or> (g = 0xEF \<and> e = 0xBB \<and> b = 0xBF)
                then drop_ws_end t else c # cs)
           | [] \<Rightarrow> c # cs)
      | [] \<Rightarrow> c # cs)"

definition trim :: "string \<Rightarrow> string" where
  "trim s = rev (drop_ws_end (rev (drop_ws s)))"

definition digit_of :: "char \<Rightarrow> nat option" where
  "digit_of c =
     (let b = (of_char c :: nat) in
      if 48 \<le> b \<and> b \<le> 57 then Some (b - 48)
      else if 97 \<le> b \<and> b \<le> 102 then Some (b - 87)
      else if 65 \<le> b \<and> b \<le> 70 then Some (b - 55)
      else None)"

definition is_digit :: "nat \<Rightarrow> char \<Rightarrow> bool" where
  "is_digit radix c = (case digit_of c of Some d \<Rightarrow> d < radix | None \<Rightarrow> False)"

definition digits_val :: "nat \<Rightarrow> string \<Rightarrow> nat" where
  "digits_val radix ds = foldl (\<lambda>a c. radix * a + the (digit_of c)) 0 ds"

definition all_digits :: "nat \<Rightarrow> string \<Rightarrow> bool" where
  "all_digits radix ds = (ds \<noteq> [] \<and> list_all (is_digit radix) ds)"

definition ExponentPart :: "string \<Rightarrow> (bool \<times> nat) option" where
  "ExponentPart s =
     (case s of
        [] \<Rightarrow> Some (False, 0)
      | c # t \<Rightarrow>
          if c = CHR ''e'' \<or> c = CHR ''E'' then
            (let (neg, ds) = (case t of
                                [] \<Rightarrow> (False, t)
                              | d # u \<Rightarrow> if d = CHR ''-'' then (True, u)
                                         else if d = CHR ''+'' then (False, u) else (False, t))
             in if all_digits 10 ds then Some (neg, digits_val 10 ds) else None)
          else None)"

definition StrUnsignedDecimalLiteral :: "string \<Rightarrow> jsnum option" where
  "StrUnsignedDecimalLiteral s =
     (if s = ''Infinity'' then Some PInf
      else
        let ip = takeWhile (is_digit 10) s;
            r1 = dropWhile (is_digit 10) s;
            fp = (case r1 of [] \<Rightarrow> [] | c # t \<Rightarrow> if c = CHR ''.'' then takeWhile (is_digit 10) t else []);
            r2 = (case r1 of [] \<Rightarrow> [] | c # t \<Rightarrow> if c = CHR ''.'' then dropWhile (is_digit 10) t else r1)
        in if ip = [] \<and> fp = [] then None
           else case ExponentPart r2 of
                  None \<Rightarrow> None
                | Some (neg, e) \<Rightarrow>
                    let m = (of_nat (digits_val 10 (ip @ fp)) :: rat) / 10 ^ length fp
                    in Some (Fin (if neg then m / 10 ^ e else m * 10 ^ e)))"

definition NonDecimalIntegerLiteral :: "string \<Rightarrow> jsnum option" where
  "NonDecimalIntegerLiteral s =
     (case s of
        z # p # ds \<Rightarrow>
          if z = CHR ''0'' then
            (let radix = (if p = CHR ''x'' \<or> p = CHR ''X'' then 16
                          else if p = CHR ''o'' \<or> p = CHR ''O'' then 8
                          else if p = CHR ''b'' \<or> p = CHR ''B'' then 2 else 0)
             in if radix \<noteq> 0 \<and> all_digits radix ds then Some (Fin (of_nat (digits_val radix ds)))
                else None)
          else None
      | _ \<Rightarrow> None)"

definition StringToNumber :: "string \<Rightarrow> jsnum" where
  "StringToNumber s =
     (let t = trim s in
      if t = [] then Fin 0
      else
        let signed = (case t of
                        [] \<Rightarrow> None
                      | c # u \<Rightarrow>
                          if c = CHR ''-'' then map_option jneg (StrUnsignedDecimalLiteral u)
                          else if c = CHR ''+'' then StrUnsignedDecimalLiteral u
                          else StrUnsignedDecimalLiteral t)
        in case signed of
             Some n \<Rightarrow> n
           | None \<Rightarrow> (case NonDecimalIntegerLiteral t of Some n \<Rightarrow> n | None \<Rightarrow> NaN))"

subsection \<open>Number(value)\<close>

text \<open>
  \<^verbatim>\<open>Number(x)\<close> on the other values. An array is converted through
  \<^verbatim>\<open>Array.prototype.join\<close>: the empty array gives the empty string (0), a
  one-element array converts like its element (\<^verbatim>\<open>null\<close> and \<^verbatim>\<open>undefined\<close> join as
  the empty string; a number printed and read back is itself), and two or more elements
  give a string with a comma, which is not a number. A plain object prints as
  \<^verbatim>\<open>[object Object]\<close>, unless it has an own property \<^verbatim>\<open>toString\<close>: stored data
  holds no function, so that property is not callable and the conversion throws.
\<close>

fun ToString_throws :: "jsval \<Rightarrow> bool" where
  "ToString_throws (JSObj kv) = (map_of kv ''toString'' \<noteq> None)"
| "ToString_throws (JSArr xs) = (\<exists>x \<in> set xs. ToString_throws x)"
| "ToString_throws _ = False"

fun joined_number :: "jsval list \<Rightarrow> jsnum" where
  "joined_number [] = Fin 0"
| "joined_number [JSUndefined] = Fin 0"
| "joined_number [JSNull] = Fin 0"
| "joined_number [JSBool b] = NaN"
| "joined_number [JSNum n] = n"
| "joined_number [JSStr s] = StringToNumber s"
| "joined_number [JSArr ys] = joined_number ys"
| "joined_number [JSObj kv] = NaN"
| "joined_number [JSFun f] = NaN"
| "joined_number (x # y # zs) = NaN"

fun ToNumber :: "jsval \<Rightarrow> js_error + jsnum" where
  "ToNumber JSUndefined = Inr NaN"
| "ToNumber JSNull = Inr (Fin 0)"
| "ToNumber (JSBool b) = Inr (Fin (if b then 1 else 0))"
| "ToNumber (JSNum n) = Inr n"
| "ToNumber (JSStr s) = Inr (StringToNumber s)"
| "ToNumber (JSArr xs) = (if ToString_throws (JSArr xs) then Inl TypeError else Inr (joined_number xs))"
| "ToNumber (JSObj kv) = (if ToString_throws (JSObj kv) then Inl TypeError else Inr NaN)"
| "ToNumber (JSFun f) = Inr NaN"

subsection \<open>Property access and spreading\<close>

text \<open>
  \<^verbatim>\<open>x.k\<close> for the property names the program reads: \<^verbatim>\<open>user\<close>, \<^verbatim>\<open>categories\<close>,
  \<^verbatim>\<open>entries\<close>, \<^verbatim>\<open>expenses\<close>, \<^verbatim>\<open>goals\<close>, \<^verbatim>\<open>fixedCosts\<close>, \<^verbatim>\<open>value\<close>, \<^verbatim>\<open>id\<close>,
  \<^verbatim>\<open>bought\<close> and \<^verbatim>\<open>name\<close>. Reading a property of \<^verbatim>\<open>null\<close> or \<^verbatim>\<open>undefined\<close> throws. The
  only one of these names that is an own property of a value other than a plain object
  is \<^verbatim>\<open>name\<close>, of a function, and the only one found on a prototype is \<^verbatim>\<open>entries\<close>, on
  \<^verbatim>\<open>Array.prototype\<close>.
\<close>

definition function_name :: "string \<Rightarrow> string" where
  "function_name path = rev (takeWhile (\<lambda>c. c \<noteq> CHR ''.'') (rev path))"

fun getprop :: "jsval \<Rightarrow> string \<Rightarrow> js_error + jsval" where
  "getprop JSUndefined k = Inl TypeError"
| "getprop JSNull k = Inl TypeError"
| "getprop (JSObj kv) k = Inr (case map_of kv k of Some v \<Rightarrow> v | None \<Rightarrow> JSUndefined)"
| "getprop (JSArr xs) k =
     Inr (if k = ''entries'' then JSFun ''Array.prototype.entries'' else JSUndefined)"
| "getprop (JSFun f) k = Inr (if k = ''name'' then JSStr (function_name f) else JSUndefined)"
| "getprop _ k = Inr JSUndefined"

text \<open>
  \<^verbatim>\<open>[item, ...s]\<close> iterates \<^verbatim>\<open>s\<close>: an array gives its elements, a string its code
  points (one string each), anything else is not iterable.
\<close>

definition is_continuation :: "char \<Rightarrow> bool" where
  "is_continuation c = (128 \<le> (of_char c :: nat) \<and> (of_char c :: nat) < 192)"

fun code_points :: "string \<Rightarrow> string list" where
  "code_points [] = []"
| "code_points [c] = [[c]]"
| "code_points (c # d # cs) =
     (if is_continuation d
      then (case code_points (d # cs) of [] \<Rightarrow> [[c]] | p # ps \<Rightarrow> (c # p) # ps)
      else [c] # code_points (d # cs))"

fun spread :: "jsval \<Rightarrow> js_error + jsval list" where
  "spread (JSArr xs) = Inr xs"
| "spread (JSStr s) = Inr (map JSStr (code_points s))"
| "spread _ = Inl TypeError"

definition prepend :: "jsval \<Rightarrow> jsval \<Rightarrow> js_error + jsval" where
  "prepend item s = (case spread s of Inl e \<Rightarrow> Inl e | Inr xs \<Rightarrow> Inr (JSArr (item # xs)))"

text \<open>
  \<^verbatim>\<open>{ ...x, k: v }\<close> copies the own enumerable properties of \<^verbatim>\<open>x\<close>: those of an
  object; the elements of an array under their indices; the UTF-16 code units of a
  string under their indices; nothing for the other values. A code point beyond the
  basic plane is two code units, each on its own a lone surrogate, written here in
  the three-byte form of UTF-8.
\<close>

fun show_nat :: "nat \<Rightarrow> string" where
  "show_nat n =
     (if n < 10 then [char_of (48 + n)] else show_nat (n div 10) @ [char_of (48 + n mod 10)])"

definition index_keys :: "'a list \<Rightarrow> (string \<times> 'a) list" where
  "index_keys xs = zip (map show_nat [0..<length xs]) xs"

definition three_bytes :: "nat \<Rightarrow> string" where
  "three_bytes u =
     [char_of (224 + u div 4096), char_of (128 + (u div 64) mod 64), char_of (128 + u mod 64)]"

definition code_unit_strings :: "string \<Rightarrow> string list" where
  "code_unit_strings p =
     (case map of_char p of
        [b0, b1, b2, b3] \<Rightarrow>
          (let c = ((b0 mod 8) * 262144 + (b1 mod 64) * 4096 + (b2 mod 64) * 64 + b3 mod 64) - 65536
           in [three_bytes (55296 + c div 1024), three_bytes (56320 + c mod 1024)])
      | _ \<Rightarrow> [p])"

definition code_units :: "string \<Rightarrow> string list" where
  "code_units s = concat (map code_unit_strings (code_points s))"

fun spread_props :: "jsval \<Rightarrow> (string \<times> jsval) list" where
  "spread_props (JSObj kv) = kv"
| "spread_props (JSArr xs) = index_keys xs"
| "spread_props (JSStr s) = index_keys (map JSStr (code_units s))"
| "spread_props _ = []"

section \<open>JSON\<close>

text \<open>
  A JSON text is represented by its syntax tree; the concrete syntax (white space,
  indentation, escapes, the digits of a number) is the host's. A text handed to
  \<^verbatim>\<open>JSON.parse\<close> is the empty string, some other text outside the grammar, or the text
  of a tree.
\<close>

datatype json =
    JNull
  | JBool bool
  | JNum rat
  | JStr string
  | JArr "json list"
  | JObj "(string \<times> json) list"

datatype jstext = EmptyText | Malformed | JSONText json

text \<open>
  \<^verbatim>\<open>JSON.parse\<close>: a repeated key keeps its first position and its last value.
\<close>

definition define_props :: "(string \<times> jsval) list \<Rightarrow> (string \<times> jsval) list" where
  "define_props kvs = foldl (\<lambda>acc kv. AList.update (fst kv) (snd kv) acc) [] kvs"

fun internalize :: "json \<Rightarrow> jsval"
  and internalize_list :: "json list \<Rightarrow> jsval list"
  and internalize_members :: "(string \<times> json) list \<Rightarrow> (string \<times> jsval) list" where
  "internalize JNull = JSNull"
| "internalize (JBool b) = JSBool b"
| "internalize (JNum q) = JSNum (Fin q)"
| "internalize (JStr s) = JSStr s"
| "internalize (JArr js) = JSArr (internalize_list js)"
| "internalize (JObj ms) = JSObj (define_props (internalize_members ms))"
| "internalize_list [] = []"
| "internalize_list (j # js) = internalize j # internalize_list js"
| "internalize_members [] = []"
| "internalize_members ((k, j) # ms) = (k, internalize j) # internalize_members ms"

fun JSON_parse :: "jstext \<Rightarrow> js_error + jsval" where
  "JSON_parse EmptyText = Inl SyntaxError"
| "JSON_parse Malformed = Inl SyntaxError"
| "JSON_parse (JSONText j) = Inr (internalize j)"

text \<open>
  \<^verbatim>\<open>JSON.stringify\<close>: \<^verbatim>\<open>NaN\<close> and the infinities are written as \<^verbatim>\<open>null\<close>; a
  property whose value is \<^verbatim>\<open>undefined\<close> or a function is left out of an object and
  written as \<^verbatim>\<open>null\<close> in an array; at top level such a value gives no text at all
  (\<^verbatim>\<open>undefined\<close>).
\<close>

fun SerializeJSONProperty :: "jsval \<Rightarrow> json option"
  and SerializeJSONArray :: "jsval list \<Rightarrow> json list"
  and SerializeJSONObject :: "(string \<times> jsval) list \<Rightarrow> (string \<times> json) list" where
  "SerializeJSONProperty JSUndefined = None"
| "SerializeJSONProperty (JSFun f) = None"
| "SerializeJSONProperty JSNull = Some JNull"
| "SerializeJSONProperty (JSBool b) = Some (JBool b)"
| "SerializeJSONProperty (JSNum (Fin q)) = Some (JNum q)"
| "SerializeJSONProperty (JSNum NaN) = Some JNull"
| "SerializeJSONProperty (JSNum PInf) = Some JNull"
| "SerializeJSONProperty (JSNum NInf) = Some JNull"
| "SerializeJSONProperty (JSStr s) = Some (JStr s)"
| "SerializeJSONProperty (JSArr xs) = Some (JArr (SerializeJSONArray xs))"
| "SerializeJSONProperty (JSObj kv) = Some (JObj (SerializeJSONObject kv))"
| "SerializeJSONArray [] = []"
| "SerializeJSONArray (x # xs) =
     (case SerializeJSONProperty x of None \<Rightarrow> JNull | Some j \<Rightarrow> j) # SerializeJSONArray xs"
| "SerializeJSONObject [] = []"
| "SerializeJSONObject ((k, v) # kv) =
     (case SerializeJSONProperty v of
        None \<Rightarrow> SerializeJSONObject kv
      | Some j \<Rightarrow> (k, j) # SerializeJSONObject kv)"

definition JSON_stringify :: "jsval \<Rightarrow> jstext option" where
  "JSON_stringify v = map_option JSONText (SerializeJSONProperty v)"

section \<open>The component state\<close>

text \<open>
  The six persisted \<^verbatim>\<open>useState\<close> cells, the two form cells, and the
  \<^verbatim>\<open>localStorage\<close> item \<^verbatim>\<open>myfinance_v1\<close> (\<open>None\<close> when the key is absent).
  Rendering (the JSX, the selected tab) is not part of the model.
\<close>

record entry_form =
  form_type :: string
  form_value :: string
  form_desc :: string
  form_cat :: string
  form_date :: string

record goal_form =
  goal_name :: string
  goal_price :: string
  goal_priority :: string

record app =
  user :: jsval
  categories :: jsval
  entries :: jsval
  expenses :: jsval
  goals :: jsval
  fixedCosts :: jsval
  form :: entry_form
  goalForm :: goal_form
  localStorage :: "jstext option"

datatype event = Alert string | ConsoleError | Uncaught js_error | Download string jstext

text \<open>
  A handler ends with the component in a new state, the save effect done
  (\<open>Running\<close>), or with the component torn down because a state updater threw when
  React ran it (\<open>Crashed\<close>). An exception that escapes a handler before any setter is
  called leaves the state as it was and is reported (\<open>Uncaught\<close>). Whether the view
  can display a state is not modelled; the derived totals are, as functions that can
  throw.
\<close>

datatype outcome = Running app | Crashed

definition DEFAULT_USER :: jsval where
  "DEFAULT_USER = JSObj
     [(''name'', JSStr ''Seu Nome''),
      (''email'', JSStr ''seu@email.com''),
      (''bio'', JSStr (''Programador em progresso '' @ [CHR 0xF0, CHR 0x9F, CHR 0x92, CHR 0x99]))]"

definition SAMPLE_CATEGORIES :: jsval where
  "SAMPLE_CATEGORIES = JSArr
     [JSStr (''Sal'' @ [CHR 0xC3, CHR 0xA1] @ ''rio''),
      JSStr (''Alimenta'' @ [CHR 0xC3, CHR 0xA7, CHR 0xC3, CHR 0xA3] @ ''o''),
      JSStr ''Transporte'',
      JSStr ''Lazer'',
      JSStr ''Assinaturas'',
      JSStr ''Outros'']"

definition initial_form :: entry_form where
  "initial_form =
     \<lparr>form_type = ''expense'', form_value = [], form_desc = [],
      form_cat = ''Alimenta'' @ [CHR 0xC3, CHR 0xA7, CHR 0xC3, CHR 0xA3] @ ''o'', form_date = []\<rparr>"

definition initial_goalForm :: goal_form where
  "initial_goalForm =
     \<lparr>goal_name = [], goal_price = [], goal_priority = ''M'' @ [CHR 0xC3, CHR 0xA9] @ ''dia''\<rparr>"

definition initial :: "jstext option \<Rightarrow> app" where
  "initial raw =
     \<lparr>user = DEFAULT_USER, categories = SAMPLE_CATEGORIES, entries = JSArr [],
      expenses = JSArr [], goals = JSArr [], fixedCosts = JSArr [],
      form = initial_form, goalForm = initial_goalForm, localStorage = raw\<rparr>"

subsection \<open>Saving\<close>

definition payload :: "app \<Rightarrow> jsval" where
  "payload a = JSObj
     [(''user'', user a), (''categories'', categories a), (''entries'', entries a),
      (''expenses'', expenses a), (''goals'', goals a), (''fixedCosts'', fixedCosts a)]"

text \<open>
  The save effect runs after every render in which one of the six cells changed. Were
  \<^verbatim>\<open>JSON.stringify\<close> to return \<^verbatim>\<open>undefined\<close>, the item would hold the text
  \<^verbatim>\<open>undefined\<close>, which is not JSON.
\<close>

definition stringified :: "jsval \<Rightarrow> jstext" where
  "stringified v = (case JSON_stringify v of Some t \<Rightarrow> t | None \<Rightarrow> Malformed)"

definition save :: "app \<Rightarrow> app" where
  "save a = a\<lparr>localStorage := Some (stringified (payload a))\<rparr>"

subsection \<open>Loading and importing\<close>

definition and_then :: "js_error + 'a \<Rightarrow> ('a \<Rightarrow> js_error + 'b) \<Rightarrow> js_error + 'b" where
  "and_then r f = (case r of Inl e \<Rightarrow> Inl e | Inr x \<Rightarrow> f x)"

definition or_default :: "jsval \<Rightarrow> string \<Rightarrow> jsval \<Rightarrow> js_error + jsval" where
  "or_default data k d = and_then (getprop data k) (\<lambda>v. Inr (js_or v d))"

text \<open>
  A state setter called with a function takes it for an updater and calls it with the
  previous state while rendering. The only function the program can hand to a setter
  is \<^verbatim>\<open>Array.prototype.entries\<close> (from a document whose root is an array); called
  without a receiver it throws.
\<close>

fun is_updater :: "jsval \<Rightarrow> bool" where
  "is_updater (JSFun f) = True"
| "is_updater _ = False"

text \<open>
  The six assignments \<^verbatim>\<open>setUser(data.user || DEFAULT_USER)\<close> ... that the load effect
  and \<^verbatim>\<open>importData\<close> both perform. \<open>Inl\<close>: an exception thrown before any setter was
  called.
\<close>

definition set_from_data :: "jsval \<Rightarrow> app \<Rightarrow> js_error + outcome" where
  "set_from_data data a =
     and_then (or_default data ''user'' DEFAULT_USER) (\<lambda>u.
     and_then (or_default data ''categories'' SAMPLE_CATEGORIES) (\<lambda>c.
     and_then (or_default data ''entries'' (JSArr [])) (\<lambda>e.
     and_then (or_default data ''expenses'' (JSArr [])) (\<lambda>x.
     and_then (or_default data ''goals'' (JSArr [])) (\<lambda>g.
     and_then (or_default data ''fixedCosts'' (JSArr [])) (\<lambda>f.
       Inr (if list_ex is_updater [u, c, e, x, g, f] then Crashed
            else Running (save (a\<lparr>user := u, categories := c, entries := e,
                                   expenses := x, goals := g, fixedCosts := f\<rparr>)))))))))"

definition load :: "jstext option \<Rightarrow> event list \<times> outcome" where
  "load raw =
     (let a = initial raw in
      case raw of
        None \<Rightarrow> ([], Running (save a))
      | Some t \<Rightarrow>
          if t = EmptyText then ([], Running (save a))
          else (case and_then (JSON_parse t) (\<lambda>data. set_from_data data a) of
                  Inl e \<Rightarrow> ([ConsoleError], Running (save a))
                | Inr out \<Rightarrow> ([], out)))"

definition import_failed :: string where
  "import_failed = ''Falha ao importar: arquivo inv'' @ [CHR 0xC3, CHR 0xA1] @ ''lido''"

definition importData :: "jstext option \<Rightarrow> app \<Rightarrow> event list \<times> outcome" where
  "importData file a =
     (case file of
        None \<Rightarrow> ([], Running a)
      | Some t \<Rightarrow>
          (case and_then (JSON_parse t) (\<lambda>data. set_from_data data a) of
             Inl e \<Rightarrow> ([Alert import_failed], Running a)
           | Inr out \<Rightarrow> ([Alert ''Dados importados com sucesso''], out)))"

definition exportData :: "app \<Rightarrow> event list \<times> outcome" where
  "exportData a =
     ([Download ''meus_dados_financeiros.json'' (stringified (payload a))], Running a)"

subsection \<open>Derived values\<close>

text \<open>\<^verbatim>\<open>xs.reduce((s, e) => s + Number(e.value || 0), 0)\<close>\<close>

fun reduce_values :: "jsnum \<Rightarrow> jsval list \<Rightarrow> js_error + jsnum" where
  "reduce_values s [] = Inr s"
| "reduce_values s (e # es) =
     and_then (getprop e ''value'') (\<lambda>v.
     and_then (ToNumber (js_or v (JSNum (Fin 0)))) (\<lambda>n.
       reduce_values (jadd s n) es))"

fun sum_of_values :: "jsval \<Rightarrow> js_error + jsnum" where
  "sum_of_values (JSArr xs) = reduce_values (Fin 0) xs"
| "sum_of_values _ = Inl TypeError"

definition totalIncome :: "app \<Rightarrow> js_error + jsnum" where
  "totalIncome a = sum_of_values (entries a)"

definition totalExpenses :: "app \<Rightarrow> js_error + jsnum" where
  "totalExpenses a = sum_of_values (expenses a)"

definition projectedBalance :: "app \<Rightarrow> js_error + jsnum" where
  "projectedBalance a =
     and_then (totalIncome a) (\<lambda>ti.
     and_then (totalExpenses a) (\<lambda>te.
     and_then (sum_of_values (fixedCosts a)) (\<lambda>fc.
       Inr (jsub (jsub ti te) fc))))"

section \<open>The handlers\<close>

text \<open>
  What the host supplies is an argument: the string \<^verbatim>\<open>uid()\<close> returned, today's date
  (\<^verbatim>\<open>new Date().toISOString().slice(0, 10)\<close>), the answer to \<^verbatim>\<open>confirm\<close>, the
  answers to \<^verbatim>\<open>prompt\<close> (\<open>None\<close> when cancelled), the text of the chosen file. The id
  handed to a handler (\<open>ident\<close>) is the id of a listed item, a string.
\<close>

definition fill_entry :: string where
  "fill_entry = ''Preencha descri'' @ [CHR 0xC3, CHR 0xA7, CHR 0xC3, CHR 0xA3] @ ''o e valor''"

definition fill_goal :: string where
  "fill_goal = ''Preencha nome e pre'' @ [CHR 0xC3, CHR 0xA7] @ ''o do desejo''"

definition new_item :: "string \<Rightarrow> string \<Rightarrow> entry_form \<Rightarrow> jsval" where
  "new_item uid today f = JSObj
     [(''id'', JSStr uid),
      (''value'', JSNum (StringToNumber (form_value f))),
      (''desc'', JSStr (form_desc f)),
      (''cat'', JSStr (form_cat f)),
      (''date'', js_or (JSStr (form_date f)) (JSStr today))]"

definition addEntry :: "string \<Rightarrow> string \<Rightarrow> app \<Rightarrow> event list \<times> outcome" where
  "addEntry uid today a =
     (let f = form a; v = StringToNumber (form_value f) in
      if \<not> truthy (JSNum v) \<or> \<not> truthy (JSStr (form_desc f)) then ([Alert fill_entry], Running a)
      else
        let item = new_item uid today f;
            cleared = f\<lparr>form_value := [], form_desc := []\<rparr>
        in if form_type f = ''income''
           then (case prepend item (entries a) of
                   Inl e \<Rightarrow> ([], Crashed)
                 | Inr s \<Rightarrow> ([], Running (save (a\<lparr>entries := s, form := cleared\<rparr>))))
           else (case prepend item (expenses a) of
                   Inl e \<Rightarrow> ([], Crashed)
                 | Inr s \<Rightarrow> ([], Running (save (a\<lparr>expenses := s, form := cleared\<rparr>)))))"

text \<open>\<^verbatim>\<open>s.filter((i) => i.id !== id)\<close>: only an array has \<^verbatim>\<open>filter\<close>.\<close>

fun filter_out_id :: "string \<Rightarrow> jsval list \<Rightarrow> js_error + jsval list" where
  "filter_out_id ident [] = Inr []"
| "filter_out_id ident (i # rest) =
     and_then (getprop i ''id'') (\<lambda>v.
     and_then (filter_out_id ident rest) (\<lambda>r.
       Inr (if v = JSStr ident then r else i # r)))"

fun remove_by_id :: "string \<Rightarrow> jsval \<Rightarrow> js_error + jsval" where
  "remove_by_id ident (JSArr xs) = and_then (filter_out_id ident xs) (\<lambda>r. Inr (JSArr r))"
| "remove_by_id ident _ = Inl TypeError"

definition removeItem :: "string \<Rightarrow> string \<Rightarrow> bool \<Rightarrow> app \<Rightarrow> event list \<times> outcome" where
  "removeItem ident kind confirmed a =
     (if \<not> confirmed then ([], Running a)
      else if kind = ''income'' then
        (case remove_by_id ident (entries a) of
           Inl e \<Rightarrow> ([], Crashed)
         | Inr s \<Rightarrow> ([], Running (save (a\<lparr>entries := s\<rparr>))))
      else if kind = ''expense'' then
        (case remove_by_id ident (expenses a) of
           Inl e \<Rightarrow> ([], Crashed)
         | Inr s \<Rightarrow> ([], Running (save (a\<lparr>expenses := s\<rparr>))))
      else ([], Running a))"

definition new_goal :: "string \<Rightarrow> goal_form \<Rightarrow> jsval" where
  "new_goal uid gf = JSObj
     [(''id'', JSStr uid),
      (''name'', JSStr (goal_name gf)),
      (''price'', JSNum (StringToNumber (goal_price gf))),
      (''priority'', JSStr (goal_priority gf)),
      (''bought'', JSBool False)]"

definition addGoal :: "string \<Rightarrow> app \<Rightarrow> event list \<times> outcome" where
  "addGoal uid a =
     (let gf = goalForm a; price = StringToNumber (goal_price gf) in
      if \<not> truthy (JSStr (goal_name gf)) \<or> \<not> truthy (JSNum price) then ([Alert fill_goal], Running a)
      else (case prepend (new_goal uid gf) (goals a) of
              Inl e \<Rightarrow> ([], Crashed)
            | Inr s \<Rightarrow> ([], Running (save (a\<lparr>goals := s, goalForm := initial_goalForm\<rparr>)))))"

text \<open>
  \<^verbatim>\<open>s.map((g) => (g.id === id ? { ...g, bought: !g.bought } : g))\<close>. Only an object
  has an id that equals a string; the spread copies its properties and \<^verbatim>\<open>bought\<close>
  is then defined in place, or added last.
\<close>

definition toggled :: "jsval \<Rightarrow> jsval" where
  "toggled g =
     (case g of
        JSObj kv \<Rightarrow>
          JSObj (AList.update ''bought''
                   (JSBool (\<not> truthy (case map_of kv ''bought'' of Some b \<Rightarrow> b | None \<Rightarrow> JSUndefined))) kv)
      | _ \<Rightarrow> g)"

fun toggle_matching :: "string \<Rightarrow> jsval list \<Rightarrow> js_error + jsval list" where
  "toggle_matching ident [] = Inr []"
| "toggle_matching ident (g # rest) =
     and_then (getprop g ''id'') (\<lambda>v.
     and_then (toggle_matching ident rest) (\<lambda>r.
       Inr ((if v = JSStr ident then toggled g else g) # r)))"

definition toggleGoal :: "string \<Rightarrow> app \<Rightarrow> event list \<times> outcome" where
  "toggleGoal ident a =
     (case goals a of
        JSArr gs \<Rightarrow>
          (case toggle_matching ident gs of
             Inl e \<Rightarrow> ([], Crashed)
           | Inr r \<Rightarrow> ([], Running (save (a\<lparr>goals := JSArr r\<rparr>))))
      | _ \<Rightarrow> ([], Crashed))"

definition removeGoal :: "string \<Rightarrow> app \<Rightarrow> event list \<times> outcome" where
  "removeGoal ident a =
     (case remove_by_id ident (goals a) of
        Inl e \<Rightarrow> ([], Crashed)
      | Inr s \<Rightarrow> ([], Running (save (a\<lparr>goals := s\<rparr>))))"

definition new_fixedCost :: "string \<Rightarrow> string \<Rightarrow> string \<Rightarrow> jsval" where
  "new_fixedCost uid name v = JSObj
     [(''id'', JSStr uid), (''name'', JSStr name), (''value'', JSNum (StringToNumber v))]"

definition addFixedCost :: "string option \<Rightarrow> string option \<Rightarrow> string \<Rightarrow> app \<Rightarrow> event list \<times> outcome" where
  "addFixedCost name v uid a =
     (case (name, v) of
        (Some n, Some w) \<Rightarrow>
          if \<not> truthy (JSStr n) \<or> \<not> truthy (JSStr w) then ([], Running a)
          else (case prepend (new_fixedCost uid n w) (fixedCosts a) of
                  Inl e \<Rightarrow> ([], Crashed)
                | Inr s \<Rightarrow> ([], Running (save (a\<lparr>fixedCosts := s\<rparr>))))
      | _ \<Rightarrow> ([], Running a))"

definition removeFixedCost :: "string \<Rightarrow> app \<Rightarrow> event list \<times> outcome" where
  "removeFixedCost ident a =
     (case remove_by_id ident (fixedCosts a) of
        Inl e \<Rightarrow> ([], Crashed)
      | Inr s \<Rightarrow> ([], Running (save (a\<lparr>fixedCosts := s\<rparr>))))"

definition addCategory :: "string option \<Rightarrow> app \<Rightarrow> event list \<times> outcome" where
  "addCategory cat a =
     (case cat of
        None \<Rightarrow> ([], Running a)
      | Some c \<Rightarrow>
          if \<not> truthy (JSStr c) then ([], Running a)
          else (case prepend (JSStr c) (categories a) of
                  Inl e \<Rightarrow> ([], Crashed)
                | Inr s \<Rightarrow> ([], Running (save (a\<lparr>categories := s\<rparr>)))))"

text \<open>
  The click handler of \<^verbatim>\<open>Editar Perfil\<close> (\<^verbatim>\<open>setProfileName\<close> in the
  specification): \<^verbatim>\<open>prompt("Novo nome:", user.name)\<close> converts its second argument to
  a string unless it is \<^verbatim>\<open>undefined\<close>, which can throw; a truthy answer replaces the
  name.
\<close>

definition setProfileName :: "string option \<Rightarrow> app \<Rightarrow> event list \<times> outcome" where
  "setProfileName answer a =
     (case getprop (user a) ''name'' of
        Inl e \<Rightarrow> ([Uncaught e], Running a)
      | Inr current \<Rightarrow>
          if ToString_throws current then ([Uncaught TypeError], Running a)
          else (case answer of
                  None \<Rightarrow> ([], Running a)
                | Some name \<Rightarrow>
                    if \<not> truthy (JSStr name) then ([], Running a)
                    else ([], Running (save (a\<lparr>user :=
                            JSObj (AList.update ''name'' (JSStr name) (spread_props (user a)))\<rparr>)))))"

subsection \<open>Sequences of user actions\<close>

text \<open>
  An action carries what the user and the host supply. \<open>AddEntry\<close> and \<open>AddGoal\<close>
  carry the contents typed into the form (the \<^verbatim>\<open>onChange\<close> handlers store them in the
  form cell before the submit).
\<close>

datatype action =
    AddEntry entry_form string string
  | RemoveItem string string bool
  | AddGoal goal_form string
  | ToggleGoal string
  | RemoveGoal string
  | AddFixedCost "string option" "string option" string
  | RemoveFixedCost string
  | AddCategory "string option"
  | SetProfileName "string option"
  | ImportData "jstext option"
  | ExportData

fun perform :: "action \<Rightarrow> app \<Rightarrow> event list \<times> outcome" where
  "perform (AddEntry f uid today) a = addEntry uid today (a\<lparr>form := f\<rparr>)"
| "perform (RemoveItem ident kind confirmed) a = removeItem ident kind confirmed a"
| "perform (AddGoal gf uid) a = addGoal uid (a\<lparr>goalForm := gf\<rparr>)"
| "perform (ToggleGoal ident) a = toggleGoal ident a"
| "perform (RemoveGoal ident) a = removeGoal ident a"
| "perform (AddFixedCost name v uid) a = addFixedCost name v uid a"
| "perform (RemoveFixedCost ident) a = removeFixedCost ident a"
| "perform (AddCategory cat) a = addCategory cat a"
| "perform (SetProfileName answer) a = setProfileName answer a"
| "perform (ImportData file) a = importData file a"
| "perform ExportData a = exportData a"

fun run :: "action list \<Rightarrow> app \<Rightarrow> outcome" where
  "run [] a = Running a"
| "run (act # acts) a =
     (case snd (perform act a) of Running a' \<Rightarrow> run acts a' | Crashed \<Rightarrow> Crashed)"

section \<open>Notions of the specification\<close>

subsection \<open>Sums of stored values\<close>








subsection \<open>Values that JSON can hold\<close>

text \<open>
  A value survives \<^verbatim>\<open>JSON.stringify\<close> unchanged when it holds no \<^verbatim>\<open>undefined\<close>, no
  function and no number other than a finite one. (That the keys of an object are
  distinct is a property of every object.)
\<close>

fun plain :: "jsval \<Rightarrow> bool" where
  "plain JSUndefined = False"
| "plain JSNull = True"
| "plain (JSBool b) = True"
| "plain (JSNum n) = (case n of Fin q \<Rightarrow> True | _ \<Rightarrow> False)"
| "plain (JSStr s) = True"
| "plain (JSArr xs) = list_all plain xs"
| "plain (JSObj kv) = (distinct (map fst kv) \<and> list_all (\<lambda>p. plain (snd p)) kv)"
| "plain (JSFun f) = False"






subsection \<open>Top-level fields and their defaults\<close>



text \<open>
  What a top-level field of a document whose root is an object leads to: the value the
  document gives it when that value is truthy, the default otherwise.
\<close>

definition pick :: "(string \<times> jsval) list \<Rightarrow> string \<Rightarrow> jsval \<Rightarrow> jsval" where
  "pick kv k d = (case map_of kv k of Some v \<Rightarrow> if truthy v then v else d | None \<Rightarrow> d)"

definition from_document :: "(string \<times> jsval) list \<Rightarrow> app \<Rightarrow> app" where
  "from_document kv a =
     a\<lparr>user := pick kv ''user'' DEFAULT_USER,
       categories := pick kv ''categories'' SAMPLE_CATEGORIES,
       entries := pick kv ''entries'' (JSArr []),
       expenses := pick kv ''expenses'' (JSArr []),
       goals := pick kv ''goals'' (JSArr []),
       fixedCosts := pick kv ''fixedCosts'' (JSArr [])\<rparr>"

subsection \<open>Ids\<close>

definition id_of :: "jsval \<Rightarrow> jsval" where
  "id_of x = (case getprop x ''id'' of Inr v \<Rightarrow> v | Inl e \<Rightarrow> JSUndefined)"





fun is_import :: "action \<Rightarrow> bool" where
  "is_import (ImportData file) = True"
| "is_import _ = False"





subsection \<open>Goals\<close>

text \<open>A goal as the data model has it: an object whose \<^verbatim>\<open>bought\<close> is a boolean.\<close>

fun is_goal :: "jsval \<Rightarrow> bool" where
  "is_goal (JSObj kv) = (case map_of kv ''bought'' of Some (JSBool b) \<Rightarrow> True | _ \<Rightarrow> False)"
| "is_goal _ = False"

definition prop_of :: "jsval \<Rightarrow> string \<Rightarrow> jsval" where
  "prop_of x k = (case getprop x k of Inr v \<Rightarrow> v | Inl e \<Rightarrow> JSUndefined)"

text \<open>What \<^verbatim>\<open>toggleGoal\<close> does to one element of a list of goals.\<close>

definition flip_matching :: "string \<Rightarrow> jsval \<Rightarrow> jsval" where
  "flip_matching i g = (if id_of g = JSStr i then toggled g else g)"

section \<open>Evaluation\<close>

text \<open>The definitions that evaluate a handler on a concrete state.\<close>

lemmas number_defs = StringToNumber_def trim_def StrUnsignedDecimalLiteral_def
  NonDecimalIntegerLiteral_def ExponentPart_def all_digits_def digits_val_def is_digit_def
  digit_of_def Let_def

lemma save_simps:
  "user (save a) = user a" "categories (save a) = categories a" "entries (save a) = entries a"
  "expenses (save a) = expenses a" "goals (save a) = goals a" "fixedCosts (save a) = fixedCosts a"
  "form (save a) = form a" "goalForm (save a) = goalForm a" "payload (save a) = payload a"
  by (simp_all add: save_def payload_def)

lemmas handler_defs = addEntry_def removeItem_def addGoal_def toggleGoal_def removeGoal_def
  addFixedCost_def removeFixedCost_def addCategory_def
  new_item_def new_goal_def new_fixedCost_def prepend_def and_then_def js_or_def toggled_def
  save_simps initial_def

section \<open>Loading and importing a document\<close>

lemma or_default_obj: "or_default (JSObj kv) k d = Inr (pick kv k d)"
  by (simp add: or_default_def and_then_def js_or_def pick_def split: option.splits)

lemma plain_not_updater: "plain v \<Longrightarrow> \<not> is_updater v"
  by (cases v) simp_all

lemma update_values_plain:
  "list_all (\<lambda>p. plain (snd p)) al \<Longrightarrow> plain v \<Longrightarrow> list_all (\<lambda>p. plain (snd p)) (AList.update k v al)"
  by (induction al) auto

lemma define_props_acc:
  "distinct (map fst acc) \<Longrightarrow> list_all (\<lambda>p. plain (snd p)) acc \<Longrightarrow> list_all (\<lambda>p. plain (snd p)) kvs \<Longrightarrow>
   distinct (map fst (foldl (\<lambda>acc kv. AList.update (fst kv) (snd kv) acc) acc kvs)) \<and>
   list_all (\<lambda>p. plain (snd p)) (foldl (\<lambda>acc kv. AList.update (fst kv) (snd kv) acc) acc kvs)"
  by (induction kvs arbitrary: acc) (simp_all add: distinct_update update_values_plain)

lemma plain_define_props:
  "list_all (\<lambda>p. plain (snd p)) kvs \<Longrightarrow> plain (JSObj (define_props kvs))"
  using define_props_acc [of "[]" kvs] by (simp add: define_props_def)

lemma plain_internalize_all:
  "plain (internalize j)"
  "list_all plain (internalize_list js)"
  "list_all (\<lambda>p. plain (snd p)) (internalize_members ms)"
  by (induction j and js and ms rule: internalize_internalize_list_internalize_members.induct)
     (simp_all add: plain_define_props del: plain.simps(7))

lemma pick_plain: "list_all (\<lambda>p. plain (snd p)) kv \<Longrightarrow> plain d \<Longrightarrow> plain (pick kv k d)"
  by (auto simp: pick_def list_all_iff split: option.splits dest!: map_of_SomeD)

lemma plain_defaults: "plain DEFAULT_USER" "plain SAMPLE_CATEGORIES" "plain (JSArr [])"
  by (simp_all add: DEFAULT_USER_def SAMPLE_CATEGORIES_def)

lemma set_from_data_obj:
  assumes "plain (JSObj kv)"
  shows "set_from_data (JSObj kv) a = Inr (Running (save (from_document kv a)))"
proof -
  from assms have vals: "list_all (\<lambda>p. plain (snd p)) kv" by simp
  have "\<not> is_updater (pick kv k d)" if "plain d" for k d
    using pick_plain [OF vals that] by (rule plain_not_updater)
  then show ?thesis
    by (simp add: set_from_data_def or_default_obj and_then_def from_document_def plain_defaults)
qed


lemma import_obj:
  assumes "internalize j = JSObj kv"
  shows "importData (Some (JSONText j)) a = ([Alert ''Dados importados com sucesso''], Running (save (from_document kv a)))"
proof -
  have "plain (JSObj kv)" using plain_internalize_all(1) [of j] assms by simp
  then show ?thesis
    by (simp add: importData_def and_then_def assms set_from_data_obj)
qed



text \<open>
  C3. Whatever the state before the import, a file whose contents \<^verbatim>\<open>JSON.parse\<close>
  rejects leaves the whole state as it was (the six collections, and with them the
  persisted document) and shows the failure alert (\<open>import_failed\<close>);
  the component keeps running.
\<close>

theorem importData_unparseable:
  "JSON_parse t = Inl e \<Longrightarrow> importData (Some t) a = ([Alert import_failed], Running a)"
  by (simp add: importData_def and_then_def)

theorem importData_unparseable_witness:
  "JSON_parse Malformed = Inl SyntaxError \<and>
   importData (Some Malformed) (initial None) = ([Alert import_failed], Running (initial None))"
  using importData_unparseable [of Malformed SyntaxError "initial None"] by simp

section \<open>Totals\<close>























section \<open>Adding entries and goals\<close>








section \<open>Toggling a goal\<close>

lemma is_goal_obj: "is_goal g \<Longrightarrow> \<exists>kv b. g = JSObj kv \<and> map_of kv ''bought'' = Some (JSBool b)"
  by (cases g) (auto split: option.splits jsval.splits)

lemma toggle_matching_goals:
  "list_all is_goal gs \<Longrightarrow> toggle_matching i gs = Inr (map (flip_matching i) gs)"
proof (induction gs)
  case Nil
  then show ?case by simp
next
  case (Cons g gs)
  then obtain kv where "g = JSObj kv" using is_goal_obj [of g] by auto
  with Cons show ?case by (simp add: and_then_def flip_matching_def id_of_def)
qed

lemma toggled_bought:
  "is_goal g \<Longrightarrow> prop_of (toggled g) ''bought'' = JSBool (\<not> truthy (prop_of g ''bought''))"
  by (auto dest!: is_goal_obj simp: toggled_def prop_of_def update_conv')

lemma toggled_other:
  "is_goal g \<Longrightarrow> k \<noteq> ''bought'' \<Longrightarrow> prop_of (toggled g) k = prop_of g k"
  by (auto dest!: is_goal_obj simp: toggled_def prop_of_def update_conv')

lemma toggled_is_goal: "is_goal g \<Longrightarrow> is_goal (toggled g)"
  by (auto dest!: is_goal_obj simp: toggled_def update_conv')

lemma toggled_id: "is_goal g \<Longrightarrow> id_of (toggled g) = id_of g"
  by (auto dest!: is_goal_obj simp: toggled_def id_of_def update_conv')

lemma toggled_twice: "is_goal g \<Longrightarrow> toggled (toggled g) = g"
  by (auto dest!: is_goal_obj simp: toggled_def update_conv' update_triv)

lemma flip_matching_is_goal: "is_goal g \<Longrightarrow> is_goal (flip_matching i g)"
  by (simp add: flip_matching_def toggled_is_goal)

lemma flip_matching_twice: "is_goal g \<Longrightarrow> flip_matching i (flip_matching i g) = g"
  by (simp add: flip_matching_def toggled_id toggled_twice)

lemma map_flip_twice:
  "list_all is_goal gs \<Longrightarrow> map (flip_matching i) (map (flip_matching i) gs) = gs"
  by (induction gs) (simp_all add: flip_matching_twice)

lemma map_flip_absent:
  "\<forall>g \<in> set gs. id_of g \<noteq> JSStr i \<Longrightarrow> map (flip_matching i) gs = gs"
  by (induction gs) (simp_all add: flip_matching_def)

text \<open>
  C8. In a store whose goals are goals of the data model (objects with a boolean
  \<^verbatim>\<open>bought\<close>), \<^verbatim>\<open>toggleGoal\<close> negates \<^verbatim>\<open>bought\<close> on every goal with the given id
  and changes nothing else; when no goal has the id the list of goals stays as it is;
  and toggling the same id twice gives back the goals as they were.
\<close>

theorem toggleGoal_flips:
  assumes "goals a = JSArr gs" and "list_all is_goal gs"
  shows "\<exists>gs1. toggleGoal i a = ([], Running (save (a\<lparr>goals := JSArr gs1\<rparr>))) \<and>
           length gs1 = length gs \<and>
           (\<forall>n < length gs.
              (id_of (gs ! n) = JSStr i \<longrightarrow>
                 prop_of (gs1 ! n) ''bought'' = JSBool (\<not> truthy (prop_of (gs ! n) ''bought'')) \<and>
                 (\<forall>k. k \<noteq> ''bought'' \<longrightarrow> prop_of (gs1 ! n) k = prop_of (gs ! n) k)) \<and>
              (id_of (gs ! n) \<noteq> JSStr i \<longrightarrow> gs1 ! n = gs ! n)) \<and>
           ((\<forall>g \<in> set gs. id_of g \<noteq> JSStr i) \<longrightarrow> gs1 = gs) \<and>
           (\<exists>a1 a2. toggleGoal i a = ([], Running a1) \<and> toggleGoal i a1 = ([], Running a2) \<and>
                     goals a2 = goals a)"
proof -
  let ?gs1 = "map (flip_matching i) gs"
  let ?a1 = "save (a\<lparr>goals := JSArr ?gs1\<rparr>)"
  have once: "toggleGoal i a = ([], Running ?a1)"
    using assms by (simp add: toggleGoal_def toggle_matching_goals)
  have goals1: "list_all is_goal ?gs1"
    using assms(2) by (simp add: list_all_iff flip_matching_is_goal)
  have "goals ?a1 = JSArr ?gs1" by (simp add: save_def)
  then have twice: "toggleGoal i ?a1 = ([], Running (save (?a1\<lparr>goals := JSArr (map (flip_matching i) ?gs1)\<rparr>)))"
    using goals1 by (simp add: toggleGoal_def toggle_matching_goals)
  have restored: "goals (save (?a1\<lparr>goals := JSArr (map (flip_matching i) ?gs1)\<rparr>)) = goals a"
    using assms map_flip_twice [of gs i] by (simp add: save_def)
  have each: "(id_of (gs ! n) = JSStr i \<longrightarrow>
                 prop_of (?gs1 ! n) ''bought'' = JSBool (\<not> truthy (prop_of (gs ! n) ''bought'')) \<and>
                 (\<forall>k. k \<noteq> ''bought'' \<longrightarrow> prop_of (?gs1 ! n) k = prop_of (gs ! n) k)) \<and>
              (id_of (gs ! n) \<noteq> JSStr i \<longrightarrow> ?gs1 ! n = gs ! n)" if "n < length gs" for n
  proof -
    from that assms(2) have "is_goal (gs ! n)" by (simp add: list_all_length)
    then show ?thesis using that
      by (simp add: flip_matching_def toggled_bought toggled_other)
  qed
  have absent: "(\<forall>g \<in> set gs. id_of g \<noteq> JSStr i) \<longrightarrow> ?gs1 = gs"
    using map_flip_absent [of gs i] by blast
  from once twice restored have "\<exists>a1 a2. toggleGoal i a = ([], Running a1) \<and> toggleGoal i a1 = ([], Running a2) \<and>
                     goals a2 = goals a" by blast
  with once each absent show ?thesis
    by (intro exI [of _ ?gs1]) simp
qed

theorem toggleGoal_flips_witness:
  "goals ((initial None)\<lparr>goals := JSArr [JSObj [(''id'', JSStr ''g1''), (''name'', JSStr ''Bike''),
            (''price'', JSNum (Fin 1500)), (''priority'', JSStr ''Alta''), (''bought'', JSBool False)]]\<rparr>)
     = JSArr [JSObj [(''id'', JSStr ''g1''), (''name'', JSStr ''Bike''),
            (''price'', JSNum (Fin 1500)), (''priority'', JSStr ''Alta''), (''bought'', JSBool False)]] \<and>
   list_all is_goal [JSObj [(''id'', JSStr ''g1''), (''name'', JSStr ''Bike''),
            (''price'', JSNum (Fin 1500)), (''priority'', JSStr ''Alta''), (''bought'', JSBool False)]] \<and>
   (\<exists>a1 a2.
      toggleGoal ''g1'' ((initial None)\<lparr>goals := JSArr [JSObj [(''id'', JSStr ''g1''), (''name'', JSStr ''Bike''),
            (''price'', JSNum (Fin 1500)), (''priority'', JSStr ''Alta''), (''bought'', JSBool False)]]\<rparr>)
        = ([], Running a1) \<and>
      goals a1 = JSArr [JSObj [(''id'', JSStr ''g1''), (''name'', JSStr ''Bike''),
            (''price'', JSNum (Fin 1500)), (''priority'', JSStr ''Alta''), (''bought'', JSBool True)]] \<and>
      toggleGoal ''g1'' a1 = ([], Running a2) \<and>
      goals a2 = JSArr [JSObj [(''id'', JSStr ''g1''), (''name'', JSStr ''Bike''),
            (''price'', JSNum (Fin 1500)), (''priority'', JSStr ''Alta''), (''bought'', JSBool False)]])"
  using toggleGoal_flips
    [of "(initial None)\<lparr>goals := JSArr [JSObj [(''id'', JSStr ''g1''), (''name'', JSStr ''Bike''),
            (''price'', JSNum (Fin 1500)), (''priority'', JSStr ''Alta''), (''bought'', JSBool False)]]\<rparr>"
        "[JSObj [(''id'', JSStr ''g1''), (''name'', JSStr ''Bike''),
            (''price'', JSNum (Fin 1500)), (''priority'', JSStr ''Alta''), (''bought'', JSBool False)]]"
        "''g1''"]
  by (auto simp add: toggleGoal_def toggled_def and_then_def save_def)

section \<open>Values that are not numbers\<close>

lemma jadd_zero: "jadd s (Fin 0) = s"
  by (cases s) simp_all

lemma reduce_values_append:
  "reduce_values s (xs @ rest) = and_then (reduce_values s xs) (\<lambda>t. reduce_values t rest)"
proof (induction xs arbitrary: s)
  case Nil
  then show ?case by (simp add: and_then_def)
next
  case (Cons x xs)
  then show ?case by (simp add: and_then_def split: sum.splits)
qed

lemma falsy_to_zero: "\<not> truthy v \<Longrightarrow> ToNumber (js_or v (JSNum (Fin 0))) = Inr (Fin 0)"
  by (simp add: js_or_def)

lemma reduce_values_skip:
  assumes "getprop e ''value'' = Inr v" and "\<not> truthy v"
  shows "reduce_values s (xs @ e # ys) = reduce_values s (xs @ ys)"
proof -
  have "reduce_values t (e # ys) = reduce_values t ys" for t
    using assms by (simp add: and_then_def falsy_to_zero jadd_zero)
  then show ?thesis by (simp add: reduce_values_append [of s xs])
qed

text \<open>
  C5, as the specification states it, fails. After importing a document whose only
  entry has the value \<^verbatim>\<open>"abc"\<close>, that value is not counted as 0: the income and the
  projected balance are \<^verbatim>\<open>NaN\<close>. And an entry added with the value \<^verbatim>\<open>Infinity\<close> is
  accepted, so that the income and the projected balance are infinite.
\<close>

theorem totals_not_zero_nor_finite:
  "(\<exists>a. importData
          (Some (JSONText (JObj [(''entries'',
             JArr [JObj [(''id'', JStr ''e1''), (''value'', JStr ''abc''), (''desc'', JStr ''x'')]])])))
          (initial None)
        = ([Alert ''Dados importados com sucesso''], Running a) \<and>
        entries a = JSArr [JSObj [(''id'', JSStr ''e1''), (''value'', JSStr ''abc''), (''desc'', JSStr ''x'')]] \<and>
        totalIncome a = Inr NaN \<and>
        projectedBalance a = Inr NaN) \<and>
   (\<exists>a0 a. load None = ([], Running a0) \<and>
        run [AddEntry \<lparr>form_type = ''income'', form_value = ''Infinity'', form_desc = ''prize'',
                       form_cat = ''Outros'', form_date = []\<rparr> ''e1'' ''2024-05-02''] a0 = Running a \<and>
        entries a = JSArr [JSObj [(''id'', JSStr ''e1''), (''value'', JSNum PInf),
                                  (''desc'', JSStr ''prize''), (''cat'', JSStr ''Outros''),
                                  (''date'', JSStr ''2024-05-02'')]] \<and>
        totalIncome a = Inr PInf \<and>
        projectedBalance a = Inr PInf)"
proof -
  have n: "StringToNumber ''abc'' = NaN" "StringToNumber ''Infinity'' = PInf"
    by (simp_all add: number_defs)
  let ?kv = "[(''entries'',
               JSArr [JSObj [(''id'', JSStr ''e1''), (''value'', JSStr ''abc''), (''desc'', JSStr ''x'')]])]"
  have "internalize (JObj [(''entries'',
             JArr [JObj [(''id'', JStr ''e1''), (''value'', JStr ''abc''), (''desc'', JStr ''x'')]])])
        = JSObj ?kv"
    by (simp add: define_props_def)
  from import_obj [OF this, of "initial None"]
  have 1: "\<exists>a. importData
          (Some (JSONText (JObj [(''entries'',
             JArr [JObj [(''id'', JStr ''e1''), (''value'', JStr ''abc''), (''desc'', JStr ''x'')]])])))
          (initial None)
        = ([Alert ''Dados importados com sucesso''], Running a) \<and>
        entries a = JSArr [JSObj [(''id'', JSStr ''e1''), (''value'', JSStr ''abc''), (''desc'', JSStr ''x'')]] \<and>
        totalIncome a = Inr NaN \<and>
        projectedBalance a = Inr NaN"
    by (simp add: save_simps from_document_def pick_def totalIncome_def totalExpenses_def
          projectedBalance_def and_then_def js_or_def n jsub_def initial_def)
  have l: "load None = ([], Running (save (initial None)))" by (simp add: load_def)
  have "\<exists>a. run [AddEntry \<lparr>form_type = ''income'', form_value = ''Infinity'', form_desc = ''prize'',
                       form_cat = ''Outros'', form_date = []\<rparr> ''e1'' ''2024-05-02'']
              (save (initial None)) = Running a \<and>
        entries a = JSArr [JSObj [(''id'', JSStr ''e1''), (''value'', JSNum PInf),
                                  (''desc'', JSStr ''prize''), (''cat'', JSStr ''Outros''),
                                  (''date'', JSStr ''2024-05-02'')]] \<and>
        totalIncome a = Inr PInf \<and>
        projectedBalance a = Inr PInf"
    by (simp add: handler_defs Let_def n totalIncome_def totalExpenses_def projectedBalance_def
          jsub_def)
  with l 1 show ?thesis by blast
qed

text \<open>
  C5, amended. A stored value that is falsy (missing, \<^verbatim>\<open>null\<close>, \<^verbatim>\<open>false\<close>, 0,
  \<^verbatim>\<open>NaN\<close> or the empty string) is counted as 0: taking the item out of its collection
  changes none of the totals. (A truthy value that is not a number goes through
  \<^verbatim>\<open>Number\<close> as it is.)
\<close>

theorem falsy_value_counts_zero:
  assumes "getprop e ''value'' = Inr v" and "\<not> truthy v"
  shows "ToNumber (js_or v (JSNum (Fin 0))) = Inr (Fin 0) \<and>
         sum_of_values (JSArr (xs @ e # ys)) = sum_of_values (JSArr (xs @ ys)) \<and>
         (entries a = JSArr (xs @ e # ys) \<longrightarrow>
            totalIncome a = totalIncome (a\<lparr>entries := JSArr (xs @ ys)\<rparr>) \<and>
            projectedBalance a = projectedBalance (a\<lparr>entries := JSArr (xs @ ys)\<rparr>)) \<and>
         (expenses a = JSArr (xs @ e # ys) \<longrightarrow>
            totalExpenses a = totalExpenses (a\<lparr>expenses := JSArr (xs @ ys)\<rparr>) \<and>
            projectedBalance a = projectedBalance (a\<lparr>expenses := JSArr (xs @ ys)\<rparr>)) \<and>
         (fixedCosts a = JSArr (xs @ e # ys) \<longrightarrow>
            projectedBalance a = projectedBalance (a\<lparr>fixedCosts := JSArr (xs @ ys)\<rparr>))"
proof -
  have skip: "sum_of_values (JSArr (xs @ e # ys)) = sum_of_values (JSArr (xs @ ys))"
    using assms by (simp add: reduce_values_skip)
  then show ?thesis using assms(2)
    by (simp add: falsy_to_zero totalIncome_def totalExpenses_def projectedBalance_def)
qed

theorem falsy_value_counts_zero_witness:
  "getprop (JSObj [(''id'', JSStr ''f1''), (''name'', JSStr ''Luz''), (''value'', JSNum NaN)]) ''value''
     = Inr (JSNum NaN) \<and>
   \<not> truthy (JSNum NaN) \<and>
   ToNumber (js_or (JSNum NaN) (JSNum (Fin 0))) = Inr (Fin 0) \<and>
   sum_of_values (JSArr [JSObj [(''id'', JSStr ''f0''), (''name'', JSStr ''Net''), (''value'', JSNum (Fin 80))],
                        JSObj [(''id'', JSStr ''f1''), (''name'', JSStr ''Luz''), (''value'', JSNum NaN)]])
     = Inr (Fin 80)"
  using falsy_value_counts_zero
    [of "JSObj [(''id'', JSStr ''f1''), (''name'', JSStr ''Luz''), (''value'', JSNum NaN)]" "JSNum NaN"
        "[JSObj [(''id'', JSStr ''f0''), (''name'', JSStr ''Net''), (''value'', JSNum (Fin 80))]]" "[]"
        "initial None"]
  by (simp add: and_then_def js_or_def)

section \<open>Export followed by import\<close>
















































section \<open>Ids\<close>








lemma id_of_new [simp]:
  "id_of (new_item uid today f) = JSStr uid"
  "id_of (new_goal uid gf) = JSStr uid"
  "id_of (new_fixedCost uid n w) = JSStr uid"
  by (simp_all add: id_of_def new_item_def new_goal_def new_fixedCost_def)
















end
